theory Spec2Isabelle
  imports Main "HOL-Library.Word"
begin

section \<open>Go strings and the library functions the trie uses\<close>

text \<open>
  A Go string is a sequence of bytes; \<^typ>\<open>string\<close> (a list of 8-bit characters) is the
  same thing. Indexing a Go string out of range panics, so every index expression of the
  source is guarded below by an explicit test on the string.
\<close>

definition HasPrefix :: "string \<Rightarrow> string \<Rightarrow> bool" where
  "HasPrefix s p = (take (length p) s = p)"

definition TrimPrefix :: "string \<Rightarrow> string \<Rightarrow> string" where
  "TrimPrefix s p = (if HasPrefix s p then drop (length p) s else s)"

fun Contains :: "string \<Rightarrow> string \<Rightarrow> bool" where
  "Contains [] sub = (sub = [])"
| "Contains (c # cs) sub = (HasPrefix (c # cs) sub \<or> Contains cs sub)"

text \<open>\<open>strings.Index\<close> and \<open>strings.LastIndex\<close>: \<open>None\<close> stands for \<open>-1\<close>.\<close>

fun Index :: "string \<Rightarrow> string \<Rightarrow> nat option" where
  "Index [] sub = (if sub = [] then Some 0 else None)"
| "Index (c # cs) sub =
     (if HasPrefix (c # cs) sub then Some 0 else map_option Suc (Index cs sub))"

fun LastIndex :: "string \<Rightarrow> string \<Rightarrow> nat option" where
  "LastIndex [] sub = (if sub = [] then Some 0 else None)"
| "LastIndex (c # cs) sub =
     (case LastIndex cs sub of
        Some i \<Rightarrow> Some (Suc i)
      | None \<Rightarrow> if HasPrefix (c # cs) sub then Some 0 else None)"

text \<open>
  \<open>strings.ReplaceAll s old new\<close> for a non-empty \<open>old\<close>: the non-overlapping occurrences
  are replaced from left to right.
\<close>

fun ReplaceAll :: "string \<Rightarrow> string \<Rightarrow> string \<Rightarrow> string" where
  "ReplaceAll [] old new = []"
| "ReplaceAll (c # cs) old new =
     (if old \<noteq> [] \<and> HasPrefix (c # cs) old
      then new @ ReplaceAll (drop (length old) (c # cs)) old new
      else c # ReplaceAll cs old new)"

text \<open>\<open>strings.Split s sep\<close> for a one-byte separator.\<close>

fun Split :: "string \<Rightarrow> char \<Rightarrow> string list" where
  "Split [] sep = [[]]"
| "Split (c # cs) sep =
     (if c = sep then [] # Split cs sep
      else (case Split cs sep of p # ps \<Rightarrow> (c # p) # ps | [] \<Rightarrow> [[c]]))"

definition Separator :: string where
  "Separator = ''/''"

definition SeparatorRune :: char where
  "SeparatorRune = CHR ''/''"

definition DoubleSeparator :: string where
  "DoubleSeparator = ''//''"

definition SpecialPathSymbol :: string where
  "SpecialPathSymbol = '':''"

section \<open>Path utilities\<close>

text \<open>
  The collapsing loop of \<open>CleanPath\<close>:
  \<^verbatim>\<open>for { if strings.Contains(path, "//") { path = strings.ReplaceAll(path, "//", "/") } else { break } }\<close>
\<close>

function collapse :: "string \<Rightarrow> string" where
  "collapse path =
     (if Contains path DoubleSeparator
      then collapse (ReplaceAll path DoubleSeparator Separator)
      else path)"
  by pat_completeness auto

termination
proof (relation "measure length")
  show "wf (measure length)" by simp
next
  fix path :: string
  assume c: "Contains path DoubleSeparator"
  have le: "length (ReplaceAll s DoubleSeparator Separator) \<le> length s" for s
    by (induction s DoubleSeparator Separator rule: ReplaceAll.induct)
       (auto simp: DoubleSeparator_def Separator_def HasPrefix_def)
  have "Contains s DoubleSeparator \<Longrightarrow>
          length (ReplaceAll s DoubleSeparator Separator) < length s" for s
  proof (induction s DoubleSeparator Separator rule: ReplaceAll.induct)
    case 1
    then show ?case by (simp add: DoubleSeparator_def)
  next
    case (2 c cs)
    show ?case
    proof (cases "HasPrefix (c # cs) DoubleSeparator")
      case True
      have "length (ReplaceAll (drop 2 (c # cs)) DoubleSeparator Separator)
              \<le> length (drop 2 (c # cs))"
        by (rule le)
      with True show ?thesis
        by (cases cs) (auto simp: DoubleSeparator_def Separator_def HasPrefix_def)
    next
      case False
      with 2 show ?thesis
        by (auto simp: DoubleSeparator_def)
    qed
  qed
  with c show "(ReplaceAll path DoubleSeparator Separator, path) \<in> measure length"
    by simp
qed

text \<open>
  \<open>CleanPath\<close>. The index \<open>path[0]\<close> after the loop is in range: the loop keeps a non-empty
  string non-empty (lemma \<open>collapse_nonempty\<close> below), so the \<open>[]\<close> branch of the case is
  never taken.
\<close>

definition CleanPath :: "string \<Rightarrow> string" where
  "CleanPath path =
     (if length path = 0 then path
      else
        let p1 = collapse path;
            p2 = (case p1 of
                    [] \<Rightarrow> p1
                  | c # _ \<Rightarrow> if c \<noteq> SeparatorRune then Separator @ p1 else p1);
            pl = length p2
        in if pl > 1 \<and> p2 ! (pl - 1) = SeparatorRune then take (pl - 1) p2 else p2)"

text \<open>\<open>strings.Join\<close> and \<open>JoinPath\<close>.\<close>

fun Join :: "string list \<Rightarrow> string \<Rightarrow> string" where
  "Join [] sep = []"
| "Join [x] sep = x"
| "Join (x # y # ys) sep = x @ sep @ Join (y # ys) sep"

definition JoinPath :: "string list \<Rightarrow> string" where
  "JoinPath paths = CleanPath (Join paths Separator)"

text \<open>
  \<open>filepath.Base\<close> (Unix): the empty path gives \<open>"."\<close>, trailing slashes are stripped, the
  last element is returned, and a path of slashes only gives \<open>"/"\<close>.
\<close>

definition Base :: "string \<Rightarrow> string" where
  "Base path =
     (if path = [] then ''.''
      else
        let p = rev (dropWhile (\<lambda>c. c = SeparatorRune) (rev path));
            q = (case LastIndex p Separator of Some i \<Rightarrow> drop (Suc i) p | None \<Rightarrow> p)
        in if q = [] then Separator else q)"

subsection \<open>UTF-8\<close>

text \<open>\<open>utf8.RuneStart b\<close> is \<open>b & 0xC0 != 0x80\<close>: the byte is not a continuation byte.\<close>

definition RuneStart :: "char \<Rightarrow> bool" where
  "RuneStart c = (\<not> (128 \<le> (of_char c :: nat) \<and> (of_char c :: nat) < 192))"

text \<open>
  The table \<open>first\<close> of package \<open>utf8\<close> with its accept ranges: for a leading byte of a
  multi-byte encoding, the size of the encoding and the range allowed for the second byte.
\<close>

definition leadInfo :: "nat \<Rightarrow> (nat \<times> nat \<times> nat) option" where
  "leadInfo b =
     (if 194 \<le> b \<and> b \<le> 223 then Some (2, 128, 191)
      else if b = 224 then Some (3, 160, 191)
      else if 225 \<le> b \<and> b \<le> 236 then Some (3, 128, 191)
      else if b = 237 then Some (3, 128, 159)
      else if 238 \<le> b \<and> b \<le> 239 then Some (3, 128, 191)
      else if b = 240 then Some (4, 144, 191)
      else if 241 \<le> b \<and> b \<le> 243 then Some (4, 128, 191)
      else if b = 244 then Some (4, 128, 143)
      else None)"

definition isCont :: "char \<Rightarrow> bool" where
  "isCont c = (128 \<le> (of_char c :: nat) \<and> (of_char c :: nat) \<le> 191)"

definition RuneError :: nat where
  "RuneError = 65533"

text \<open>\<open>utf8.DecodeRuneInString\<close>: the first rune of the string and its width in bytes.\<close>

definition DecodeRuneInString :: "string \<Rightarrow> nat \<times> nat" where
  "DecodeRuneInString s =
     (case s of
        [] \<Rightarrow> (RuneError, 0)
      | c0 # r0 \<Rightarrow>
          let s0 = (of_char c0 :: nat) in
          if s0 < 128 then (s0, 1)
          else (case leadInfo s0 of
             None \<Rightarrow> (RuneError, 1)
           | Some (sz, lo, hi) \<Rightarrow>
               if length s < sz then (RuneError, 1)
               else (case r0 of
                  [] \<Rightarrow> (RuneError, 1)
                | c1 # r1 \<Rightarrow>
                    let s1 = (of_char c1 :: nat) in
                    if s1 < lo \<or> hi < s1 then (RuneError, 1)
                    else if sz \<le> 2 then ((s0 mod 32) * 64 + s1 mod 64, 2)
                    else (case r1 of
                       [] \<Rightarrow> (RuneError, 1)
                     | c2 # r2 \<Rightarrow>
                         let s2 = (of_char c2 :: nat) in
                         if s2 < 128 \<or> 191 < s2 then (RuneError, 1)
                         else if sz \<le> 3
                           then ((s0 mod 16) * 4096 + (s1 mod 64) * 64 + s2 mod 64, 3)
                         else (case r2 of
                            [] \<Rightarrow> (RuneError, 1)
                          | c3 # _ \<Rightarrow>
                              let s3 = (of_char c3 :: nat) in
                              if s3 < 128 \<or> 191 < s3 then (RuneError, 1)
                              else ((s0 mod 8) * 262144 + (s1 mod 64) * 4096
                                      + (s2 mod 64) * 64 + s3 mod 64, 4))))))"

text \<open>
  \<open>utf8.ValidString\<close>: the string is a sequence of well-formed encodings. The source never
  calls it; it states the hypothesis "valid UTF-8" of the properties of \<open>commonPrefix\<close>.
\<close>

fun ValidString :: "string \<Rightarrow> bool" where
  "ValidString [] = True"
| "ValidString (c0 # r0) =
     (if (of_char c0 :: nat) < 128 then ValidString r0
      else (case leadInfo (of_char c0) of
         None \<Rightarrow> False
       | Some (sz, lo, hi) \<Rightarrow>
           (case r0 of
              [] \<Rightarrow> False
            | c1 # r1 \<Rightarrow>
                lo \<le> (of_char c1 :: nat) \<and> (of_char c1 :: nat) \<le> hi \<and>
                (if sz = 2 then ValidString r1
                 else (case r1 of
                    [] \<Rightarrow> False
                  | c2 # r2 \<Rightarrow>
                      isCont c2 \<and>
                      (if sz = 3 then ValidString r2
                       else (case r2 of
                          [] \<Rightarrow> False
                        | c3 # r3 \<Rightarrow> isCont c3 \<and> ValidString r3)))))))"

subsection \<open>commonPrefix\<close>

text \<open>The first loop: \<^verbatim>\<open>for i < len(a) && i < len(b) && a[i] == b[i] { i++ }\<close>.\<close>

function matchLoop :: "string \<Rightarrow> string \<Rightarrow> nat \<Rightarrow> nat" where
  "matchLoop a b i =
     (if i < length a \<and> i < length b \<and> a ! i = b ! i then matchLoop a b (Suc i) else i)"
  by pat_completeness auto
termination
  by (relation "measure (\<lambda>(a, b, i). length a - i)") auto

text \<open>The second loop: \<^verbatim>\<open>for i > 0 && i < len(a) && !utf8.RuneStart(a[i]) { i-- }\<close>.\<close>

fun backUp :: "string \<Rightarrow> nat \<Rightarrow> nat" where
  "backUp a 0 = 0"
| "backUp a (Suc i) =
     (if Suc i < length a \<and> \<not> RuneStart (a ! Suc i) then backUp a i else Suc i)"

definition commonPrefix :: "string \<Rightarrow> string \<Rightarrow> string" where
  "commonPrefix a b = take (backUp a (matchLoop a b 0)) a"

section \<open>The data model\<close>

definition MIMEDriveDirectory :: string where
  "MIMEDriveDirectory = ''application/chainsafe-files-directory''"

definition MIMEDriveEntry :: string where
  "MIMEDriveEntry = ''application/chainsafe-files-entry''"

definition MIMEOctetStream :: string where
  "MIMEOctetStream = ''application/octet-stream''"

definition MIMEReference :: string where
  "MIMEReference = ''application/chainsafe-files-reference''"

text \<open>
  The errors of the package, and the run-time panics of Go that the code can reach: an
  index out of range and a nil dereference.
\<close>

datatype error =
    ErrConflict | ErrEmptyPath | ErrEmptyName | ErrIllegalPathChars | ErrIllegalNameChars
  | ErrCantAddDirectory | ErrFileNotExist | ErrCantCreateRef
  | PanicIndexOutOfRange | PanicNilDereference

text \<open>
  \<open>Content\<close>: \<open>Size\<close> and \<open>CreatedAt\<close> are \<open>int64\<close>, \<open>Version\<close> is a byte. A \<open>time.Time\<close> is
  only ever read through \<open>Unix()\<close>, so a time is its number of seconds, and
  \<open>time.Unix(s, 0).Unix()\<close> is \<open>s\<close>.
\<close>

record Content =
  Name :: string
  CID :: string
  Type :: string
  Size :: "64 word"
  Version :: "8 word"
  CreatedAt :: "64 word"

record Meta =
  FailureCode :: "64 word"
  FailedMessage :: string
  SuggestedAction :: string

text \<open>
  \<open>Entry\<close>, a node of the trie. The children are held by value: below \<open>AddFile\<close> every
  node has one owner (\<open>copy\<close> is deep, and \<open>split\<close> hands the old slice of children to the
  new node before it replaces its own). A nil slice and an empty slice are both \<open>[]\<close>; the
  functions modelled here only read \<open>len\<close> of a slice. The one place where the caller and
  the trie share a node, the first insertion, is modelled with an explicit store in
  section "The first insertion shares the caller's node".
\<close>

datatype Entry =
  Entry (Content: Content) (Path: string) (Entries: "Entry list") (Meta: "Meta option")

text \<open>
  The trie is its root; the lock and the tracing context carry no data. Every operation
  takes the trie and returns it as the call leaves it.
\<close>

record Trie =
  Root :: "Entry option"

definition NewTrie :: Trie where
  "NewTrie = \<lparr>Root = None\<rparr>"

definition NewContent :: "string \<Rightarrow> string \<Rightarrow> 64 word \<Rightarrow> string \<Rightarrow> 64 word \<Rightarrow> Content" where
  "NewContent name cid sz t createdAt =
     (if t = MIMEDriveEntry
      then \<lparr>Name = [], CID = [], Type = t, Size = 0, Version = 0, CreatedAt = createdAt\<rparr>
      else \<lparr>Name = name, CID = cid, Type = t, Size = sz,
             Version = (if t = MIMEDriveDirectory then 0 else 1), CreatedAt = createdAt\<rparr>)"

definition NewEntry :: "string \<Rightarrow> string \<Rightarrow> 64 word \<Rightarrow> string \<Rightarrow> 64 word \<Rightarrow> Entry" where
  "NewEntry path cid sz contentType createdAt =
     (let c = NewContent (Base path) cid sz contentType createdAt in
      if contentType = MIMEDriveEntry
      then Entry \<lparr>Name = [], CID = [], Type = MIMEDriveEntry, Size = 0, Version = 0,
                   CreatedAt = createdAt\<rparr>
                 path
                 [Entry (c\<lparr>Name := [], Version := 0\<rparr>) SpecialPathSymbol [] None]
                 None
      else Entry c path [] None)"

definition IsEmptyFolder :: "Entry \<Rightarrow> bool" where
  "IsEmptyFolder entry =
     (Type (Content entry) = MIMEDriveEntry \<and>
      (case Entries entry of [c] \<Rightarrow> Path c = SpecialPathSymbol | _ \<Rightarrow> False))"

definition IsDirectory :: "Content \<Rightarrow> bool" where
  "IsDirectory c = (Type c = MIMEDriveDirectory \<or> Type c = MIMEDriveEntry)"

text \<open>\<open>Content.Validate\<close> sets an empty type; it changes nothing when it fails.\<close>

definition Content_Validate :: "Content \<Rightarrow> error + Content" where
  "Content_Validate c =
     (if Contains (Name c) Separator \<or> Contains (Name c) SpecialPathSymbol
      then Inl ErrIllegalNameChars
      else if length (Type c) = 0 then Inr (c\<lparr>Type := MIMEOctetStream\<rparr>)
      else Inr c)"

definition Validate :: "Entry \<Rightarrow> error + Entry" where
  "Validate entry =
     (if Type (Content entry) = MIMEDriveDirectory then Inl ErrCantAddDirectory
      else if Name (Content entry) = ''.'' \<and> length (Path entry) = 0 then Inl ErrEmptyPath
      else if Contains (Path entry) SpecialPathSymbol then Inl ErrIllegalPathChars
      else if IsEmptyFolder entry \<and> length (CleanPath (Path entry)) = 0 then Inl ErrEmptyName
      else (case Content_Validate (Content entry) of
              Inl e \<Rightarrow> Inl e
            | Inr c \<Rightarrow> Inr (Entry c (Path entry) (Entries entry) (Meta entry))))"

text \<open>The deep copy \<open>copy\<close> with \<open>copyEntries\<close>; \<open>Copy\<close> overwrites all four fields.\<close>

fun copy :: "Entry \<Rightarrow> Entry" where
  "copy (Entry c p es m) = Entry c p (map copy es) m"

definition Copy :: "Entry \<Rightarrow> Entry \<Rightarrow> Entry" where
  "Copy entry m = Entry (Content m) (Path m) (map copy (Entries m)) (Meta m)"

definition trimPrefix :: "Entry \<Rightarrow> string \<Rightarrow> Entry" where
  "trimPrefix entry prefix =
     (let p = TrimPrefix (Path entry) prefix
      in Entry (Content entry) (if length p = 0 then SpecialPathSymbol else p)
               (Entries entry) (Meta entry))"

section \<open>Insertion\<close>

definition fixEntry :: "string \<Rightarrow> Entry \<Rightarrow> Entry" where
  "fixEntry prefix entry =
     (let p = prefix @ Path entry;
          c = (Content entry)\<lparr>Name := Base p\<rparr>
      in Entry (if Type c = MIMEDriveEntry then c\<lparr>Type := MIMEDriveDirectory\<rparr> else c)
               p [] (Meta entry))"

definition fixEntries :: "Entry list \<Rightarrow> string \<Rightarrow> Entry list" where
  "fixEntries entries prefix = map (fixEntry prefix) entries"

text \<open>
  \<open>splitEntry\<close>: the loop over \<open>strings.Split(path, "/")\<close> with its index \<open>i\<close>, the number
  \<open>n\<close> of parts and the running \<open>currentPath\<close>.
\<close>

fun splitEntryLoop :: "Entry \<Rightarrow> nat \<Rightarrow> nat \<Rightarrow> string list \<Rightarrow> string \<Rightarrow> Entry list" where
  "splitEntryLoop entry n i [] currentPath = []"
| "splitEntryLoop entry n i (p # ps) currentPath =
     (if p = [] then splitEntryLoop entry n (Suc i) ps currentPath
      else
        let cur = (if i = 0 then p else currentPath @ Separator @ p);
            e = Content entry;
            cnt = (if IsDirectory e \<or> i \<noteq> n - 1
                   then NewContent (Base cur) [] 0 MIMEDriveDirectory (CreatedAt e)
                   else NewContent (Base cur) (CID e) (Size e) (Type e) (CreatedAt e))
        in Entry cnt cur [] None # splitEntryLoop entry n (Suc i) ps cur)"

definition splitEntry :: "Entry \<Rightarrow> Entry list" where
  "splitEntry entry =
     (let paths = Split (Path entry) SeparatorRune
      in splitEntryLoop entry (length paths) 0 paths [])"

text \<open>
  \<open>split\<close> never fails. \<open>me\<close> is trimmed first (the field \<open>Path\<close> of \<open>newEntry\<close> is
  \<open>me.trimPrefix(subprefix)\<close>), then either overwritten by the empty folder \<open>what\<close> or turned
  into a branch over the old node and \<open>what\<close>.
\<close>

definition split :: "string \<Rightarrow> Entry \<Rightarrow> Entry \<Rightarrow> bool \<Rightarrow> Entry" where
  "split subprefix me what trimPath =
     (let newEntry = Entry (Content me) (Path (trimPrefix me subprefix)) (Entries me) None
      in if IsEmptyFolder what \<and> Path what = subprefix
         then Entry (Content what) (Path what) (Entries (Copy me what) @ [newEntry]) (Meta what)
         else
           let what1 = (if trimPath then trimPrefix what subprefix else what)
           in Entry (NewContent [] [] 0 MIMEDriveEntry (CreatedAt (Content me))) subprefix
                    [newEntry, what1] (Meta me))"

text \<open>
  \<open>extend\<close>: the loop looks for a sentinel or a child that starts with a slash;
  \<open>me.Path[0]\<close> panics on a child with an empty path.
\<close>

fun extendLoop :: "Entry list \<Rightarrow> error option" where
  "extendLoop [] = None"
| "extendLoop (me # rest) =
     (if Path me = SpecialPathSymbol then Some ErrConflict
      else (case Path me of
              [] \<Rightarrow> Some PanicIndexOutOfRange
            | c # _ \<Rightarrow> if c = SeparatorRune then Some ErrConflict else extendLoop rest))"

definition extend :: "Entry \<Rightarrow> Entry \<Rightarrow> error option \<times> Entry" where
  "extend subtrie what =
     (if Type (Content subtrie) \<noteq> MIMEDriveEntry then (Some ErrConflict, subtrie)
      else (case extendLoop (Entries subtrie) of
              Some e \<Rightarrow> (Some e, subtrie)
            | None \<Rightarrow>
                (None, Entry (Content subtrie) (Path subtrie)
                         (Entries subtrie @
                            [Entry (Content what) SpecialPathSymbol (Entries what) (Meta what)])
                         (Meta subtrie))))"

text \<open>
  \<open>add\<close>: the loop of the slash case stops at the first sentinel; \<open>None\<close> means that no
  child is a sentinel, and the code falls through to the \<open>append\<close>.
\<close>

fun addLoop :: "Entry list \<Rightarrow> Entry \<Rightarrow> (error + Entry list) option" where
  "addLoop [] what = None"
| "addLoop (me # rest) what =
     (if Path me = SpecialPathSymbol
      then (if Type (Content me) \<noteq> MIMEDriveEntry then Some (Inl ErrConflict)
            else Some (Inr (Copy me what # rest)))
      else (case addLoop rest what of
              None \<Rightarrow> None
            | Some (Inl e) \<Rightarrow> Some (Inl e)
            | Some (Inr rest') \<Rightarrow> Some (Inr (me # rest'))))"

definition add :: "Entry \<Rightarrow> Entry \<Rightarrow> error option \<times> Entry" where
  "add subtrie what =
     (let appended = Entry (Content subtrie) (Path subtrie) (Entries subtrie @ [what])
                       (Meta subtrie)
      in if Type (Content subtrie) \<noteq> MIMEDriveEntry then (Some ErrConflict, subtrie)
      else (case Path what of
              [] \<Rightarrow> (Some PanicIndexOutOfRange, subtrie)
            | c # _ \<Rightarrow>
                if c = SeparatorRune then
                  (if IsEmptyFolder subtrie
                   then (None, Entry (Content what) (Path subtrie @ Path what)
                                 (if Type (Content what) \<noteq> MIMEDriveEntry then []
                                  else Entries subtrie)
                                 (Meta subtrie))
                   else (case addLoop (Entries subtrie) what of
                           Some (Inl e) \<Rightarrow> (Some e, subtrie)
                         | Some (Inr es) \<Rightarrow>
                             (None, Entry (Content subtrie) (Path subtrie) es (Meta subtrie))
                         | None \<Rightarrow> (None, appended)))
                else (None, appended)))"

text \<open>
  \<open>addTo\<close> returns the list of created entries, the error and the subtrie as the call
  leaves it. The operands of each \<open>return\<close> are evaluated from left to right: the list
  is built from \<open>what\<close> and \<open>subtrie.Path\<close> before \<open>extend\<close>, \<open>split\<close> or \<open>add\<close> runs.
  \<open>addToLoop\<close> is the dispatch loop over the children: \<open>None\<close> when no child starts with
  the rune of \<open>what\<close>. \<open>now\<close> stands for \<open>time.Now()\<close>.
\<close>

fun addTo :: "64 word \<Rightarrow> Entry \<Rightarrow> Entry \<Rightarrow> Entry list \<times> error option \<times> Entry"
and addToLoop ::
  "64 word \<Rightarrow> nat \<Rightarrow> Entry list \<Rightarrow> Entry \<Rightarrow> (Entry list \<times> error option \<times> Entry list) option"
where
  "addTo now (Entry c p es m) what =
     (let subtrie = Entry c p es m in
      if HasPrefix p (Path what) then
        (case TrimPrefix p (Path what) of
           [] \<Rightarrow>
             (let created = fixEntries [copy what] [];
                  r = extend subtrie what
              in (created, fst r, snd r))
         | s0 # _ \<Rightarrow>
             if s0 = SeparatorRune then ([], Some ErrConflict, subtrie)
             else (fixEntries [copy what] [], None, split (Path what) subtrie what True))
      else if HasPrefix (Path what) p then
        (let what1 = trimPrefix what p in
         if length es = 0 then
           (if length (Path what1) = 0 \<or> hd (Path what1) = SeparatorRune then
              (if Type c = MIMEDriveEntry then
                 (let subtrie1 = Entry (Content what1) (p @ Path what1) es m in
                  if length (Path what1) = 0
                  then (fixEntries [copy what1] (Path subtrie1), None, subtrie1)
                  else (fixEntries (splitEntry what1) (Path subtrie1), None, subtrie1))
               else ([], Some ErrConflict, subtrie))
            else (fixEntries (splitEntry what1) p, None, split p subtrie what1 False))
         else
           (case addToLoop now (fst (DecodeRuneInString (Path what1))) es what1 of
              Some (entries, err, es') \<Rightarrow> (fixEntries entries p, err, Entry c p es' m)
            | None \<Rightarrow>
                (let created = fixEntries (splitEntry what1) p;
                     r = add subtrie what1
                 in (created, fst r, snd r))))
      else
        (let subprefix = commonPrefix p (Path what);
             temp = Entry (Content what) (TrimPrefix (Path what) subprefix) [] None;
             entries = splitEntry temp
         in (case Path temp of
               [] \<Rightarrow> ([], Some PanicIndexOutOfRange, subtrie)
             | t0 # _ \<Rightarrow>
                 (fixEntries
                    (if t0 = SeparatorRune
                     then entries @ [NewEntry [] [] 0 MIMEDriveDirectory now]
                     else entries)
                    subprefix,
                  None, split subprefix subtrie what True))))"
| "addToLoop now whatRune [] what = None"
| "addToLoop now whatRune (me # rest) what =
     (if fst (DecodeRuneInString (Path me)) \<noteq> whatRune
      then (case addToLoop now whatRune rest what of
              None \<Rightarrow> None
            | Some (entries, err, rest') \<Rightarrow> Some (entries, err, me # rest'))
      else (case addTo now me what of
              (entries, err, me') \<Rightarrow> Some (entries, err, me' # rest)))"

section \<open>Deletion\<close>

text \<open>
  \<open>rm\<close>, \<open>removeAndMerge\<close> and \<open>deleteOrConvert\<close> return a node or nil, and the callers
  only test the result against nil: the Boolean is "the result is not nil", and the
  \<open>Entry\<close> beside it is the subtrie as the call leaves it.
\<close>

definition deleteOrConvert :: "Entry \<Rightarrow> bool \<times> Entry" where
  "deleteOrConvert md =
     (case LastIndex (Path md) Separator of
        None \<Rightarrow> (True, md)
      | Some idx \<Rightarrow>
          if idx \<le> 0 then (True, md)
          else (False, Copy md (NewEntry (take idx (Path md)) [] 0 MIMEDriveEntry
                                  (CreatedAt (Content md)))))"

definition removeAndMerge :: "Entry \<Rightarrow> nat \<Rightarrow> bool \<times> Entry" where
  "removeAndMerge subtrie idx =
     (if length (Entries subtrie) \<le> 1 then (True, subtrie)
      else
        let es = take idx (Entries subtrie) @ drop (Suc idx) (Entries subtrie)
        in (case es of
              [ch] \<Rightarrow>
                if Path ch \<noteq> SpecialPathSymbol
                then (False, Entry (Content ch) (Path subtrie @ Path ch) (Entries ch)
                               (Meta subtrie))
                else if Type (Content ch) \<noteq> MIMEDriveEntry
                then (False, Entry (Content ch) (Path subtrie) [] (Meta subtrie))
                else (False, Entry (Content ch) (Path subtrie) es (Meta subtrie))
            | _ \<Rightarrow> (False, Entry (Content subtrie) (Path subtrie) es (Meta subtrie))))"

text \<open>
  The loop of \<open>rm\<close> runs over the children with its index \<open>i\<close>. \<open>Some i\<close> asks for
  \<open>removeAndMerge(subtrie, i)\<close>, \<open>None\<close> is \<open>return nil\<close>; the list is the children as the
  recursive call leaves them.
\<close>

fun rm :: "string \<Rightarrow> Entry \<Rightarrow> bool \<times> Entry"
and rmLoop :: "string \<Rightarrow> nat \<Rightarrow> Entry list \<Rightarrow> nat option \<times> Entry list"
where
  "rm subprefix (Entry c p es m) =
     (let sp = TrimPrefix subprefix p in
      if length sp = 0 \<and> (Type c \<noteq> MIMEDriveEntry \<or> IsEmptyFolder (Entry c p es m))
      then deleteOrConvert (Entry c p es m)
      else (case rmLoop sp 0 es of
              (Some i, es') \<Rightarrow> removeAndMerge (Entry c p es' m) i
            | (None, es') \<Rightarrow> (False, Entry c p es' m)))"
| "rmLoop sp i [] = (None, [])"
| "rmLoop sp i (me # rest) =
     (if length sp = 0 then
        (if Path me = SpecialPathSymbol then (Some i, me # rest)
         else (case rmLoop sp (Suc i) rest of (r, rest') \<Rightarrow> (r, me # rest')))
      else if HasPrefix sp (Path me) then
        (case rm sp me of (found, me') \<Rightarrow> (if found then Some i else None, me' # rest))
      else if HasPrefix (Path me) sp then (None, me # rest)
      else (case rmLoop sp (Suc i) rest of (r, rest') \<Rightarrow> (r, me # rest')))"

section \<open>Queries\<close>

text \<open>
  \<open>find\<close> returns a pointer to a \<open>Content\<close>: either to the field \<open>Content\<close> of a node of the
  trie, named here by the indices of the children that lead to it, or to a value
  allocated by the call. \<open>updateFolderEntry\<close> writes the name through that pointer, and
  \<open>Replace\<close> writes the content through it, so \<open>find\<close> also returns the subtrie as the writes
  leave it.
\<close>

datatype cref = InTrie "nat list" | Fresh Content

fun contentAt :: "Entry \<Rightarrow> nat list \<Rightarrow> Content" where
  "contentAt e [] = Content e"
| "contentAt e (i # loc) = (if i < length (Entries e) then contentAt (Entries e ! i) loc else Content e)"

fun mapContentAt :: "(Content \<Rightarrow> Content) \<Rightarrow> Entry \<Rightarrow> nat list \<Rightarrow> Entry" where
  "mapContentAt f e [] = Entry (f (Content e)) (Path e) (Entries e) (Meta e)"
| "mapContentAt f e (i # loc) =
     (if i < length (Entries e)
      then Entry (Content e) (Path e)
             ((Entries e)[i := mapContentAt f (Entries e ! i) loc]) (Meta e)
      else e)"

definition deref :: "Entry \<Rightarrow> cref \<Rightarrow> Content" where
  "deref root r = (case r of InTrie loc \<Rightarrow> contentAt root loc | Fresh c \<Rightarrow> c)"

definition below :: "nat \<Rightarrow> cref \<Rightarrow> cref" where
  "below i r = (case r of InTrie loc \<Rightarrow> InTrie (i # loc) | Fresh c \<Rightarrow> Fresh c)"

definition folderName :: "string \<Rightarrow> string \<Rightarrow> string" where
  "folderName mePath n =
     (case LastIndex mePath Separator of
        None \<Rightarrow> mePath @ n
      | Some idx \<Rightarrow> drop (Suc idx) mePath @ n)"

definition updateFolderEntry :: "cref \<Rightarrow> Entry \<Rightarrow> cref \<times> Entry" where
  "updateFolderEntry cnt me =
     (if Type (deref me cnt) \<noteq> MIMEDriveDirectory then (cnt, me)
      else (case cnt of
              Fresh c \<Rightarrow> (Fresh (c\<lparr>Name := folderName (Path me) (Name c)\<rparr>), me)
            | InTrie loc \<Rightarrow>
                (cnt, mapContentAt (\<lambda>c. c\<lparr>Name := folderName (Path me) (Name c)\<rparr>) me loc)))"

text \<open>
  The loop of \<open>find\<close> returns the pointer found below the children, and whether the source
  passes it through \<open>updateFolderEntry\<close> (it does not for the content of a sentinel file).
  \<open>t\<close> is \<open>subtrie.CreatedAt\<close>.
\<close>

fun find :: "string \<Rightarrow> Entry \<Rightarrow> cref option \<times> Entry"
and findLoop :: "string \<Rightarrow> 64 word \<Rightarrow> nat \<Rightarrow> Entry list \<Rightarrow> (cref \<times> bool) option \<times> Entry list"
where
  "find subprefix (Entry c p es m) =
     (let sp = TrimPrefix subprefix p; subtrie = Entry c p es m in
      if length sp = 0 \<and> Type c \<noteq> MIMEDriveEntry then (Some (InTrie []), subtrie)
      else if length sp = 0 \<and> IsEmptyFolder subtrie then
        (case updateFolderEntry
                (Fresh (NewContent [] [] 0 MIMEDriveDirectory (CreatedAt c))) subtrie of
           (r, subtrie') \<Rightarrow> (Some r, subtrie'))
      else (case findLoop sp (CreatedAt c) 0 es of
              (None, es') \<Rightarrow> (None, Entry c p es' m)
            | (Some (r, upd), es') \<Rightarrow>
                if upd
                then (case updateFolderEntry r (Entry c p es' m) of
                        (r', subtrie') \<Rightarrow> (Some r', subtrie'))
                else (Some r, Entry c p es' m)))"
| "findLoop sp t i [] = (None, [])"
| "findLoop sp t i (me # rest) =
     (if length sp = 0 then
        (if Path me = SpecialPathSymbol then
           (if Type (Content me) \<noteq> MIMEDriveEntry
            then (Some (InTrie [i], False), me # rest)
            else (Some (Fresh (NewContent [] [] 0 MIMEDriveDirectory t), True), me # rest))
         else (case findLoop sp t (Suc i) rest of (r, rest') \<Rightarrow> (r, me # rest')))
      else if HasPrefix sp (Path me) then
        (case find sp me of
           (None, me') \<Rightarrow> (None, me' # rest)
         | (Some r, me') \<Rightarrow> (Some (below i r, True), me' # rest))
      else if HasPrefix (Path me) sp then (None, me # rest)
      else (case findLoop sp t (Suc i) rest of (r, rest') \<Rightarrow> (r, me # rest')))"

text \<open>
  \<open>stat\<close> only reads. Its loop tries every child in turn; \<open>me.Path[0]\<close> panics on a child
  with an empty path when the rest of the path is empty.
\<close>

fun stat :: "string \<Rightarrow> Entry \<Rightarrow> error + Content option"
and statLoop :: "string \<Rightarrow> 64 word \<Rightarrow> Entry list \<Rightarrow> error + Content option"
where
  "stat subprefix (Entry c p es m) =
     (let dir = NewContent [] [] 0 MIMEDriveDirectory (CreatedAt c) in
      if HasPrefix subprefix p then
        (let sp = TrimPrefix subprefix p in
         if length sp = 0 \<and> Type c \<noteq> MIMEDriveEntry then Inr (Some c)
         else if length sp = 0 \<and> IsEmptyFolder (Entry c p es m) then Inr (Some dir)
         else statLoop sp (CreatedAt c) es)
      else if HasPrefix p subprefix then
        (case TrimPrefix p subprefix of
           [] \<Rightarrow>
             if Type c \<noteq> MIMEDriveEntry then Inr (Some c)
             else if IsEmptyFolder (Entry c p es m) then Inr (Some dir)
             else Inl PanicIndexOutOfRange
         | s0 # _ \<Rightarrow> if s0 = SeparatorRune then Inr (Some dir) else Inr None)
      else Inr None)"
| "statLoop sp t [] = Inr None"
| "statLoop sp t (me # rest) =
     (if length sp = 0 then
        (if Path me = SpecialPathSymbol then
           (if Type (Content me) \<noteq> MIMEDriveEntry then Inr (Some (Content me))
            else Inr (Some (NewContent [] [] 0 MIMEDriveDirectory t)))
         else (case Path me of
                 [] \<Rightarrow> Inl PanicIndexOutOfRange
               | m0 # _ \<Rightarrow>
                   if m0 = SeparatorRune
                   then Inr (Some (NewContent [] [] 0 MIMEDriveDirectory t))
                   else statLoop sp t rest))
      else (case stat sp me of
              Inl e \<Rightarrow> Inl e
            | Inr (Some item) \<Rightarrow> Inr (Some item)
            | Inr None \<Rightarrow> statLoop sp t rest))"

text \<open>\<open>collect\<close> and \<open>list\<close> return the contents they point to or build.\<close>

fun collect :: "string \<Rightarrow> string \<Rightarrow> Entry \<Rightarrow> Content list" where
  "collect prefix fullname (Entry c p es m) =
     (if p = SpecialPathSymbol then
        (if Type c = MIMEDriveEntry
         then [NewContent fullname [] 0 MIMEDriveDirectory (CreatedAt c)]
         else [c])
      else
        let suffix0 = (if length prefix \<noteq> 0 then TrimPrefix p prefix else p);
            suffix = (case suffix0 of
                        [] \<Rightarrow> suffix0
                      | s0 # r \<Rightarrow> if s0 = SeparatorRune then r else suffix0)
        in (case Index suffix Separator of
              Some (Suc k) \<Rightarrow>
                [NewContent (fullname @ take (Suc k) suffix) [] 0 MIMEDriveDirectory
                   (CreatedAt c)]
            | Some 0 \<Rightarrow> []
            | None \<Rightarrow>
                let fullname1 = fullname @ suffix in
                if length es = 0 then
                  (if Type c = MIMEDriveEntry
                   then [NewContent
                           (if Name c = fullname1 then Name c else fullname1 @ Name c)
                           [] 0 MIMEDriveDirectory (CreatedAt c)]
                   else [c])
                else
                  concat (map (\<lambda>me.
                     if length (Path me) \<noteq> 0 \<and> hd (Path me) = SeparatorRune
                     then [NewContent fullname1 [] 0 MIMEDriveDirectory
                             (CreatedAt (Content me))]
                     else collect [] fullname1 me) es)))"

fun list_go :: "string \<Rightarrow> Entry \<Rightarrow> Content list" where
  "list_go path (Entry c p es m) =
     (if HasPrefix p path \<and> p \<noteq> path then
        (case TrimPrefix p path of
           [] \<Rightarrow> []
         | s0 # _ \<Rightarrow>
             if s0 = SeparatorRune then collect path [] (Entry c p es m) else [])
      else if HasPrefix path p then
        (if length es = 0 then []
         else concat (map (list_go (TrimPrefix path p)) es))
      else [])"

text \<open>
  \<open>listRecursive\<close> calls itself on every directory of a listing, and nothing bounds the
  depth of these calls: the model counts them down from \<open>fuel\<close>, and \<open>None\<close> stands for a
  call that has not returned.
\<close>

fun sequenceOpt :: "'a list option list \<Rightarrow> 'a list option" where
  "sequenceOpt [] = Some []"
| "sequenceOpt (x # xs) =
     (case x of
        None \<Rightarrow> None
      | Some a \<Rightarrow> (case sequenceOpt xs of None \<Rightarrow> None | Some b \<Rightarrow> Some (a @ b)))"

fun listRecursive :: "nat \<Rightarrow> string \<Rightarrow> string \<Rightarrow> Entry \<Rightarrow> Entry list option" where
  "listRecursive 0 path fixedPath subtrie = None"
| "listRecursive (Suc fuel) path fixedPath subtrie =
     sequenceOpt (map (\<lambda>c.
        let e = Entry c (TrimPrefix (JoinPath [path, Name c]) fixedPath) [] None in
        if Type c = MIMEDriveDirectory
        then (case listRecursive fuel (JoinPath [path, Name c]) fixedPath subtrie of
                None \<Rightarrow> None
              | Some chldrn \<Rightarrow> Some (e # chldrn))
        else Some [e]) (list_go path subtrie))"

text \<open>
  Go compares strings byte by byte; \<open>sort.SliceStable\<close> keeps the order of equal keys, as
  the insertion sort below does.
\<close>

fun strLess :: "string \<Rightarrow> string \<Rightarrow> bool" where
  "strLess [] [] = False"
| "strLess [] (y # ys) = True"
| "strLess (x # xs) [] = False"
| "strLess (x # xs) (y # ys) =
     ((of_char x :: nat) < of_char y \<or> (x = y \<and> strLess xs ys))"

fun insertByPath :: "Entry \<Rightarrow> Entry list \<Rightarrow> Entry list" where
  "insertByPath e [] = [e]"
| "insertByPath e (x # xs) =
     (if strLess (Path x) (Path e) then x # insertByPath e xs else e # x # xs)"

definition sortStableByPath :: "Entry list \<Rightarrow> Entry list" where
  "sortStableByPath es = foldr insertByPath es []"

section \<open>The operations of the trie\<close>

definition lsRecursive :: "nat \<Rightarrow> Trie \<Rightarrow> string \<Rightarrow> Entry list option" where
  "lsRecursive fuel mt path =
     (case Root mt of
        None \<Rightarrow> Some []
      | Some root \<Rightarrow>
          let p = CleanPath path
          in map_option sortStableByPath (listRecursive fuel p p root))"

text \<open>
  \<open>AddFile\<close> on an entry that is not a node of the trie. The first insertion stores the
  entry itself, every later one a copy. The result is \<open>None\<close> when \<open>lsRecursive\<close> has not
  returned within \<open>fuel\<close> calls.
\<close>

definition AddFile ::
  "nat \<Rightarrow> 64 word \<Rightarrow> Trie \<Rightarrow> Entry option \<Rightarrow> ((Entry list \<times> error option) \<times> Trie) option" where
  "AddFile fuel now mt m =
     (case m of
        None \<Rightarrow> Some (([], Some ErrConflict), mt)
      | Some e \<Rightarrow>
          (case Validate e of
             Inl err \<Rightarrow> Some (([], Some err), mt)
           | Inr e1 \<Rightarrow>
               let e2 = Entry (Content e1) (CleanPath (Path e1)) (Entries e1) (Meta e1) in
               (case Root mt of
                  None \<Rightarrow>
                    let mt' = mt\<lparr>Root := Some e2\<rparr>
                    in map_option (\<lambda>l. ((l, None), mt')) (lsRecursive fuel mt' ''/'')
                | Some root \<Rightarrow>
                    (case addTo now root (copy e2) of
                       (entries, err, root') \<Rightarrow>
                         Some ((entries, err), mt\<lparr>Root := Some root'\<rparr>)))))"

definition Ls :: "Trie \<Rightarrow> string \<Rightarrow> Content list" where
  "Ls mt path =
     (case Root mt of None \<Rightarrow> [] | Some root \<Rightarrow> list_go (CleanPath path) root)"

definition File :: "Trie \<Rightarrow> string \<Rightarrow> (error + Content) \<times> Trie" where
  "File mt path =
     (if length path = 0 then (Inl ErrEmptyPath, mt)
      else (case Root mt of
              None \<Rightarrow> (Inl ErrFileNotExist, mt)
            | Some root \<Rightarrow>
                (case find (CleanPath path) root of
                   (None, root') \<Rightarrow> (Inl ErrFileNotExist, mt\<lparr>Root := Some root'\<rparr>)
                 | (Some f, root') \<Rightarrow> (Inr (deref root' f), mt\<lparr>Root := Some root'\<rparr>))))"

definition Stat :: "Trie \<Rightarrow> string \<Rightarrow> error + Content" where
  "Stat mt path =
     (if length path = 0 then Inl ErrEmptyPath
      else (case Root mt of
              None \<Rightarrow> Inl ErrFileNotExist
            | Some root \<Rightarrow>
                if path = Separator then Inl ErrFileNotExist
                else (case stat (CleanPath path) root of
                        Inl e \<Rightarrow> Inl e
                      | Inr None \<Rightarrow> Inl ErrFileNotExist
                      | Inr (Some f) \<Rightarrow> Inr (f\<lparr>Name := Base path\<rparr>))))"

text \<open>
  \<open>Replace\<close> writes \<open>CID\<close>, \<open>Size\<close> and \<open>CreatedAt\<close> through the pointer that \<open>find\<close> returns;
  a write through a pointer to a fresh value leaves the trie as it is. A nil \<open>cnt\<close> panics
  at the first of these writes.
\<close>

definition Replace ::
  "Trie \<Rightarrow> string \<Rightarrow> Content option \<Rightarrow> (error + Content \<times> Content) \<times> Trie" where
  "Replace mt path cnt =
     (if length path = 0 then (Inl ErrEmptyPath, mt)
      else (case Root mt of
              None \<Rightarrow> (Inl ErrFileNotExist, mt)
            | Some root \<Rightarrow>
                (case find (CleanPath path) root of
                   (None, root') \<Rightarrow> (Inl ErrFileNotExist, mt\<lparr>Root := Some root'\<rparr>)
                 | (Some f, root') \<Rightarrow>
                     let old = deref root' f in
                     (case cnt of
                        None \<Rightarrow> (Inl PanicNilDereference, mt\<lparr>Root := Some root'\<rparr>)
                      | Some n \<Rightarrow>
                          let w = (\<lambda>c. c\<lparr>CID := CID n, Size := Size n,
                                           CreatedAt := CreatedAt n\<rparr>)
                          in (Inr (n, old),
                              mt\<lparr>Root := Some (case f of
                                                 InTrie loc \<Rightarrow> mapContentAt w root' loc
                                               | Fresh c \<Rightarrow> root')\<rparr>)))))"

definition Delete :: "Trie \<Rightarrow> string \<Rightarrow> error option \<times> Trie" where
  "Delete mt path =
     (if length path = 0 then (Some ErrEmptyPath, mt)
      else (case Root mt of
              None \<Rightarrow> (None, mt)
            | Some root \<Rightarrow>
                (case rm (CleanPath path) root of
                   (item, root') \<Rightarrow>
                     if item then (None, mt\<lparr>Root := None\<rparr>)
                     else (None, mt\<lparr>Root := Some root'\<rparr>))))"

section \<open>Predicates used in the statements\<close>

text \<open>
  A cleaned path: it starts with the separator, has no doubled separator, and ends with
  the separator only when it is the root path.
\<close>

definition clean :: "string \<Rightarrow> bool" where
  "clean s =
     (HasPrefix s Separator \<and> \<not> Contains s DoubleSeparator \<and>
      (last s = SeparatorRune \<longrightarrow> s = Separator))"

section \<open>Strings and paths\<close>

text \<open>The two loops are unfolded by hand where needed.\<close>

declare collapse.simps [simp del]
declare matchLoop.simps [simp del]

lemma HasPrefix_Nil [simp]: "HasPrefix s []"
  by (simp add: HasPrefix_def)

lemma HasPrefix_Cons: "HasPrefix s (c # p) = (case s of [] \<Rightarrow> False | d # r \<Rightarrow> d = c \<and> HasPrefix r p)"
  by (cases s) (auto simp: HasPrefix_def)

lemma HasPrefix_append_self [simp]: "HasPrefix (p @ s) p"
  by (simp add: HasPrefix_def)

lemma HasPrefix_iff: "HasPrefix s p = (\<exists>r. s = p @ r)"
  by (metis HasPrefix_def append_eq_conv_conj append_take_drop_id)

lemma Contains_ds_Cons2:
  "Contains (c # d # r) DoubleSeparator =
     (c = CHR ''/'' \<and> d = CHR ''/'' \<or> Contains (d # r) DoubleSeparator)"
  by (auto simp: DoubleSeparator_def HasPrefix_def)

lemma Contains_ds_single [simp]: "\<not> Contains [c] DoubleSeparator"
  by (simp add: DoubleSeparator_def HasPrefix_def)

lemma Contains_ds_Nil [simp]: "\<not> Contains [] DoubleSeparator"
  by (simp add: DoubleSeparator_def)

lemma Contains_ds_tl: "\<not> Contains (c # s) DoubleSeparator \<Longrightarrow> \<not> Contains s DoubleSeparator"
  by simp

lemma Contains_ds_append: "Contains xs DoubleSeparator \<Longrightarrow> Contains (xs @ ys) DoubleSeparator"
proof (induction xs rule: induct_list012)
  case (3 c d r)
  then show ?case
    using Contains_ds_Cons2 [of c d r] Contains_ds_Cons2 [of c d "r @ ys"] by auto
qed (auto simp: DoubleSeparator_def HasPrefix_def)

lemma Contains_ds_take: "\<not> Contains s DoubleSeparator \<Longrightarrow> \<not> Contains (take n s) DoubleSeparator"
  by (metis Contains_ds_append append_take_drop_id)

lemma ReplaceAll_ds_nonempty: "s \<noteq> [] \<Longrightarrow> ReplaceAll s DoubleSeparator Separator \<noteq> []"
  by (cases s) (auto simp: DoubleSeparator_def Separator_def)

lemma collapse_nonempty: "path \<noteq> [] \<Longrightarrow> collapse path \<noteq> []"
proof (induction path rule: collapse.induct)
  case (1 path)
  show ?case
  proof (cases "Contains path DoubleSeparator")
    case True
    with 1 ReplaceAll_ds_nonempty [of path] show ?thesis
      by (subst collapse.simps) simp
  next
    case False
    with 1 show ?thesis by (subst collapse.simps) simp
  qed
qed

lemma collapse_no_ds: "\<not> Contains (collapse path) DoubleSeparator"
proof (induction path rule: collapse.induct)
  case (1 path)
  show ?case
  proof (cases "Contains path DoubleSeparator")
    case True
    with 1 show ?thesis by (subst collapse.simps) simp
  next
    case False
    then show ?thesis by (subst collapse.simps) simp
  qed
qed

lemma collapse_id: "\<not> Contains path DoubleSeparator \<Longrightarrow> collapse path = path"
  by (subst collapse.simps) simp

lemma no_ds_last:
  assumes "\<not> Contains s DoubleSeparator" "length s > 1" "last s = CHR ''/''"
  shows "last (take (length s - 1) s) \<noteq> CHR ''/''"
proof -
  from assms(2) obtain v b where v: "s = v @ [b]"
    by (cases s rule: rev_cases) auto
  with assms(2) obtain u a where "v = u @ [a]"
    by (cases v rule: rev_cases) auto
  with v have s: "s = u @ [a, b]" by simp
  with assms(3) have b: "b = CHR ''/''" by simp
  have "a \<noteq> CHR ''/''"
  proof
    assume "a = CHR ''/''"
    with s b have "s = u @ ''//''" by simp
    moreover have "Contains (u @ ''//'') DoubleSeparator"
      by (induction u) (auto simp: DoubleSeparator_def HasPrefix_def)
    ultimately show False using assms(1) by simp
  qed
  with s show ?thesis by simp
qed

lemma CleanPath_clean: assumes "p \<noteq> []" shows "clean (CleanPath p)"
proof -
  define p1 where "p1 = collapse p"
  define p2 where "p2 = (case p1 of [] \<Rightarrow> p1 | c # _ \<Rightarrow> if c \<noteq> SeparatorRune then Separator @ p1 else p1)"
  have ne: "p1 \<noteq> []" using assms by (simp add: p1_def collapse_nonempty)
  have nd: "\<not> Contains p1 DoubleSeparator" by (simp add: p1_def collapse_no_ds)
  from ne obtain c r where p1: "p1 = c # r" by (cases p1) auto
  have p2pre: "HasPrefix p2 Separator"
    by (simp add: p2_def p1 Separator_def SeparatorRune_def HasPrefix_def)
  have p2nd: "\<not> Contains p2 DoubleSeparator"
    using nd by (auto simp: p2_def p1 Separator_def SeparatorRune_def DoubleSeparator_def HasPrefix_def)
  have cp: "CleanPath p = (if length p2 > 1 \<and> p2 ! (length p2 - 1) = SeparatorRune then take (length p2 - 1) p2 else p2)"
    unfolding p2_def p1_def CleanPath_def Let_def using assms by simp
  have p2ne: "p2 \<noteq> []" using p2pre by (auto simp: HasPrefix_def Separator_def)
  show ?thesis
  proof (cases "length p2 > 1 \<and> p2 ! (length p2 - 1) = SeparatorRune")
    case True
    then have l: "last p2 = CHR ''/''" using p2ne by (simp add: last_conv_nth SeparatorRune_def)
    have r: "CleanPath p = take (length p2 - 1) p2" using True cp by simp
    have "last (take (length p2 - 1) p2) \<noteq> CHR ''/''"
      using no_ds_last [OF p2nd _ l] True by simp
    moreover have "HasPrefix (take (length p2 - 1) p2) Separator"
      using p2pre True by (cases p2) (auto simp: HasPrefix_def Separator_def take_Cons')
    moreover have "\<not> Contains (take (length p2 - 1) p2) DoubleSeparator"
      using p2nd by (rule Contains_ds_take)
    ultimately show ?thesis by (simp add: clean_def r SeparatorRune_def)
  next
    case False
    then have r: "CleanPath p = p2" using cp by auto
    have "last p2 = SeparatorRune \<longrightarrow> p2 = Separator"
    proof
      assume "last p2 = SeparatorRune"
      with False p2ne have "length p2 \<le> 1" by (auto simp: last_conv_nth)
      with p2pre show "p2 = Separator" by (cases p2) (auto simp: HasPrefix_def Separator_def)
    qed
    with p2pre p2nd show ?thesis by (simp add: clean_def r)
  qed
qed

lemma clean_CleanPath_id: assumes "clean s" shows "CleanPath s = s"
proof -
  from assms have pre: "HasPrefix s Separator" and nd: "\<not> Contains s DoubleSeparator"
    and l: "last s = SeparatorRune \<longrightarrow> s = Separator" by (auto simp: clean_def)
  from pre obtain r where s: "s = CHR ''/'' # r" by (cases s) (auto simp: HasPrefix_def Separator_def)
  have c: "collapse s = s" using nd by (rule collapse_id)
  have "\<not> (length s > 1 \<and> s ! (length s - 1) = SeparatorRune)"
  proof
    assume a: "length s > 1 \<and> s ! (length s - 1) = SeparatorRune"
    then have "s \<noteq> []" by auto
    then have "last s = s ! (length s - 1)" by (rule last_conv_nth)
    with a have "last s = SeparatorRune" by simp
    with l have "s = Separator" by simp
    with a show False by (simp add: Separator_def)
  qed
  then show ?thesis using s c
    by (simp add: CleanPath_def Let_def SeparatorRune_def)
qed

text \<open>
  C9. \<open>CleanPath\<close> of the empty string is the empty string. For every non-empty \<open>p\<close> the
  result of \<open>CleanPath p\<close> begins with \<open>/\<close>, has no occurrence of \<open>//\<close>, and does not end
  with \<open>/\<close> unless it is exactly \<open>/\<close>.
\<close>

theorem CleanPath_normal_form:
  "CleanPath [] = [] \<and>
   (p \<noteq> [] \<longrightarrow>
      HasPrefix (CleanPath p) ''/'' \<and>
      \<not> Contains (CleanPath p) ''//'' \<and>
      (last (CleanPath p) = CHR ''/'' \<longrightarrow> CleanPath p = ''/''))"
proof -
  have "CleanPath [] = []" by (simp add: CleanPath_def)
  moreover have "p \<noteq> [] \<Longrightarrow> clean (CleanPath p)" by (rule CleanPath_clean)
  ultimately show ?thesis
    by (simp add: clean_def Separator_def DoubleSeparator_def SeparatorRune_def)
qed

theorem CleanPath_normal_form_witness:
  "CleanPath [] = [] \<and> ''a//b///c//'' \<noteq> [] \<and> CleanPath ''a//b///c//'' = ''/a/b/c'' \<and>
   HasPrefix (CleanPath ''a//b///c//'') ''/'' \<and>
   \<not> Contains (CleanPath ''a//b///c//'') ''//'' \<and>
   last (CleanPath ''a//b///c//'') \<noteq> CHR ''/'' \<and>
   CleanPath ''///'' = ''/''"
proof -
  have e: "CleanPath ''a//b///c//'' = ''/a/b/c''" by code_simp
  have r: "CleanPath ''///'' = ''/''" by code_simp
  show ?thesis
    using CleanPath_normal_form [of "''a//b///c//''"] e r by simp
qed

section \<open>UTF-8 and commonPrefix\<close>

lemma leadInfo_Some:
  "leadInfo b = Some (sz, lo, hi) \<Longrightarrow>
     194 \<le> b \<and> (sz = 2 \<or> sz = 3 \<or> sz = 4) \<and> 128 \<le> lo \<and> hi \<le> 191"
  by (auto simp: leadInfo_def split: if_splits)

lemma RuneStart_ascii: "(of_char c :: nat) < 128 \<Longrightarrow> RuneStart c"
  by (simp add: RuneStart_def)

lemma RuneStart_lead: "leadInfo (of_char c) = Some x \<Longrightarrow> RuneStart c"
  by (cases x) (auto simp: RuneStart_def dest: leadInfo_Some)

lemma not_RuneStart_range:
  "128 \<le> lo \<Longrightarrow> hi \<le> 191 \<Longrightarrow> lo \<le> (of_char c :: nat) \<Longrightarrow> (of_char c :: nat) \<le> hi
     \<Longrightarrow> \<not> RuneStart c"
  by (simp add: RuneStart_def)

lemma not_RuneStart_cont: "isCont c \<Longrightarrow> \<not> RuneStart c"
  by (simp add: RuneStart_def isCont_def)

lemma ValidString_ascii:
  "(of_char c :: nat) < 128 \<Longrightarrow> ValidString (c # r) = ValidString r"
  by simp

lemma ValidString_lead:
  assumes "leadInfo (of_char c0) = Some (sz, lo, hi)"
  shows "ValidString (c0 # r0) =
     (case r0 of
        [] \<Rightarrow> False
      | c1 # r1 \<Rightarrow>
          lo \<le> (of_char c1 :: nat) \<and> (of_char c1 :: nat) \<le> hi \<and>
          (if sz = 2 then ValidString r1
           else (case r1 of
              [] \<Rightarrow> False
            | c2 # r2 \<Rightarrow>
                isCont c2 \<and>
                (if sz = 3 then ValidString r2
                 else (case r2 of
                    [] \<Rightarrow> False
                  | c3 # r3 \<Rightarrow> isCont c3 \<and> ValidString r3)))))"
proof -
  from assms have "\<not> (of_char c0 :: nat) < 128" by (auto dest: leadInfo_Some)
  with assms show ?thesis by simp
qed

text \<open>The first rune of a valid non-empty string.\<close>

lemma first_rune:
  assumes v: "ValidString s" and ne: "s \<noteq> []"
  shows "\<exists>sz. 0 < sz \<and> sz \<le> length s \<and> RuneStart (s ! 0) \<and>
           (\<forall>k. 0 < k \<and> k < sz \<longrightarrow> \<not> RuneStart (s ! k) \<and> \<not> ValidString (take k s)) \<and>
           ValidString (drop sz s) \<and>
           (\<forall>t. ValidString (take sz s @ t) = ValidString t)"
proof -
  from ne obtain c0 r0 where s: "s = c0 # r0" by (cases s) auto
  show ?thesis
  proof (cases "(of_char c0 :: nat) < 128")
    case True
    with v s have "ValidString r0" by simp
    with True s show ?thesis
      by (intro exI [of _ 1]) (auto simp: RuneStart_ascii)
  next
    case False
    with v s obtain sz lo hi where li: "leadInfo (of_char c0) = Some (sz, lo, hi)"
      by (cases "leadInfo (of_char c0)") auto
    note szs = leadInfo_Some [OF li]
    note V = ValidString_lead [OF li]
    have rs0: "RuneStart (s ! 0)" using li s by (simp add: RuneStart_lead)
    from v s V [of r0] obtain c1 r1 where r0: "r0 = c1 # r1"
      and c1: "lo \<le> (of_char c1 :: nat)" "(of_char c1 :: nat) \<le> hi"
      by (cases r0) auto
    have nc1: "\<not> RuneStart c1" using szs c1 by (auto simp: RuneStart_def)
    have n1: "\<not> ValidString [c0]" using V [of "[]"] by simp
    from szs consider "sz = 2" | "sz = 3" | "sz = 4" by auto
    then show ?thesis
    proof cases
      case 1
      with v s r0 V [of r0] have "ValidString r1" by simp
      moreover have "\<And>t. ValidString (c0 # c1 # t) = ValidString t"
        using V 1 c1 by simp
      ultimately show ?thesis using s r0 rs0 nc1 n1
        by (intro exI [of _ 2]) (auto simp: less_Suc_eq numeral_2_eq_2)
    next
      case 2
      with v s r0 V [of r0] obtain c2 r2 where r1: "r1 = c2 # r2" and c2: "isCont c2"
        and v2: "ValidString r2"
        by (cases r1) auto
      have n2: "\<not> ValidString [c0, c1]" using V [of "[c1]"] 2 by simp
      have "\<And>t. ValidString (c0 # c1 # c2 # t) = ValidString t"
        using V 2 c1 c2 by simp
      then show ?thesis using s r0 r1 rs0 nc1 n1 n2 v2 c2
        by (intro exI [of _ 3])
           (auto simp: less_Suc_eq numeral_3_eq_3 not_RuneStart_cont)
    next
      case 3
      with v s r0 V [of r0] obtain c2 r2 where r1: "r1 = c2 # r2" and c2: "isCont c2"
        and v2: "(case r2 of [] \<Rightarrow> False | c3 # r3 \<Rightarrow> isCont c3 \<and> ValidString r3)"
        by (cases r1) auto
      then obtain c3 r3 where r2: "r2 = c3 # r3" and c3: "isCont c3" and v3: "ValidString r3"
        by (cases r2) auto
      have n2: "\<not> ValidString [c0, c1]" using V [of "[c1]"] 3 by simp
      have n3: "\<not> ValidString [c0, c1, c2]" using V [of "[c1, c2]"] 3 by simp
      have "\<And>t. ValidString (c0 # c1 # c2 # c3 # t) = ValidString t"
        using V 3 c1 c2 c3 by simp
      then show ?thesis using s r0 r1 r2 rs0 nc1 n1 n2 n3 v3 c2 c3
        by (intro exI [of _ 4])
           (auto simp: less_Suc_eq not_RuneStart_cont eval_nat_numeral)
    qed
  qed
qed

lemma RuneStart_iff_boundary:
  "ValidString s \<Longrightarrow> i < length s \<Longrightarrow> RuneStart (s ! i) = ValidString (take i s)"
proof (induction s arbitrary: i rule: length_induct)
  case (1 s)
  then have ne: "s \<noteq> []" by auto
  from first_rune [OF "1.prems"(1) ne] obtain sz where
    sz: "0 < sz" "sz \<le> length s" and r0: "RuneStart (s ! 0)"
    and mid: "\<And>k. 0 < k \<Longrightarrow> k < sz \<Longrightarrow> \<not> RuneStart (s ! k) \<and> \<not> ValidString (take k s)"
    and dv: "ValidString (drop sz s)"
    and pre: "\<And>t. ValidString (take sz s @ t) = ValidString t"
    by blast
  consider "i = 0" | "0 < i" "i < sz" | "sz \<le> i" by linarith
  then show ?case
  proof cases
    case 1
    with r0 show ?thesis by simp
  next
    case 2
    with mid show ?thesis by simp
  next
    case 3
    define j where "j = i - sz"
    have i: "i = sz + j" using 3 by (simp add: j_def)
    have jl: "j < length (drop sz s)" using "1.prems"(2) 3 by (simp add: j_def)
    have "length (drop sz s) < length s" using sz ne by simp
    with "1.IH" dv jl have IH: "RuneStart (drop sz s ! j) = ValidString (take j (drop sz s))"
      by blast
    have n: "s ! i = drop sz s ! j" using sz i by simp
    have "take i s = take sz s @ take j (drop sz s)"
      unfolding i by (simp add: take_add)
    with pre have "ValidString (take i s) = ValidString (take j (drop sz s))" by simp
    with IH n show ?thesis by simp
  qed
qed

lemma matchLoop_spec:
  "i \<le> length a \<Longrightarrow> i \<le> length b \<Longrightarrow> take i a = take i b \<Longrightarrow>
   (let n = matchLoop a b i in
      i \<le> n \<and> n \<le> length a \<and> n \<le> length b \<and> take n a = take n b \<and>
      (n < length a \<and> n < length b \<longrightarrow> a ! n \<noteq> b ! n))"
proof (induction a b i rule: matchLoop.induct)
  case (1 a b i)
  show ?case
  proof (cases "i < length a \<and> i < length b \<and> a ! i = b ! i")
    case True
    then have "take (Suc i) a = take (Suc i) b"
      using "1.prems"(3) by (simp add: take_Suc_conv_app_nth)
    with True "1.IH" have
      "let n = matchLoop a b (Suc i) in
         Suc i \<le> n \<and> n \<le> length a \<and> n \<le> length b \<and> take n a = take n b \<and>
         (n < length a \<and> n < length b \<longrightarrow> a ! n \<noteq> b ! n)"
      by simp
    moreover have "matchLoop a b i = matchLoop a b (Suc i)"
      using True by (subst matchLoop.simps) simp
    ultimately show ?thesis by (simp add: Let_def)
  next
    case False
    then have "matchLoop a b i = i" by (subst matchLoop.simps) auto
    with False "1.prems" show ?thesis by (auto simp: Let_def)
  qed
qed

lemma matchLoop_sym: "matchLoop a b i = matchLoop b a i"
proof (induction a b i rule: matchLoop.induct)
  case (1 a b i)
  show ?case
  proof (cases "i < length a \<and> i < length b \<and> a ! i = b ! i")
    case True
    then have "matchLoop a b i = matchLoop a b (Suc i)"
      by (subst matchLoop.simps) simp
    moreover from True have "matchLoop b a i = matchLoop b a (Suc i)"
      by (subst matchLoop.simps) simp
    ultimately show ?thesis using "1.IH" True by simp
  next
    case False
    then have "matchLoop a b i = i" by (subst matchLoop.simps) auto
    moreover from False have "matchLoop b a i = i" by (subst matchLoop.simps) auto
    ultimately show ?thesis by simp
  qed
qed

lemma backUp_le: "backUp a i \<le> i"
  by (induction i) auto

lemma backUp_stop:
  "backUp a i = 0 \<or> \<not> (backUp a i < length a \<and> \<not> RuneStart (a ! backUp a i))"
  by (induction i) auto

lemma backUp_cong:
  "(\<And>j. 0 < j \<Longrightarrow> j \<le> i \<Longrightarrow>
      (j < length a \<and> \<not> RuneStart (a ! j)) = (j < length b \<and> \<not> RuneStart (b ! j)))
   \<Longrightarrow> backUp a i = backUp b i"
  by (induction i) auto

lemma commonPrefix_take:
  "\<exists>k. k \<le> length a \<and> k \<le> length b \<and> commonPrefix a b = take k a \<and> take k a = take k b"
proof -
  define n where "n = matchLoop a b 0"
  define k where "k = backUp a n"
  from matchLoop_spec [of 0 a b] have n: "n \<le> length a" "n \<le> length b" "take n a = take n b"
    by (simp_all add: n_def Let_def)
  have kn: "k \<le> n" by (simp add: k_def backUp_le)
  have "take k (take n a) = take k (take n b)" using n by simp
  with kn have "take k a = take k b" by (simp add: min_absorb2)
  with kn n show ?thesis
    by (intro exI [of _ k]) (simp add: commonPrefix_def k_def n_def)
qed

lemma commonPrefix_HasPrefix:
  "HasPrefix a (commonPrefix a b) \<and> HasPrefix b (commonPrefix a b)"
proof -
  from commonPrefix_take [of a b] obtain k where
    "k \<le> length a" "k \<le> length b" "commonPrefix a b = take k a" "take k a = take k b" by blast
  then show ?thesis by (simp add: HasPrefix_def min_absorb2)
qed

lemma commonPrefix_valid:
  assumes "ValidString a"
  shows "ValidString (commonPrefix a b)"
proof -
  define k where "k = backUp a (matchLoop a b 0)"
  have cp: "commonPrefix a b = take k a" by (simp add: commonPrefix_def k_def)
  from backUp_stop [of a "matchLoop a b 0"]
  consider "k = 0" | "length a \<le> k" | "k < length a" "RuneStart (a ! k)"
    unfolding k_def by fastforce
  then show ?thesis
  proof cases
    case 1
    then show ?thesis by (simp add: cp)
  next
    case 2
    with assms show ?thesis by (simp add: cp)
  next
    case 3
    with RuneStart_iff_boundary [OF assms, of k] show ?thesis by (simp add: cp)
  qed
qed

lemma commonPrefix_sym:
  assumes va: "ValidString a" and vb: "ValidString b"
  shows "commonPrefix a b = commonPrefix b a"
proof -
  define n where "n = matchLoop a b 0"
  have nb: "matchLoop b a 0 = n" by (simp add: n_def matchLoop_sym)
  from matchLoop_spec [of 0 a b] have n: "n \<le> length a" "n \<le> length b"
    and tn: "take n a = take n b"
    by (simp_all add: n_def Let_def)
  have nth: "a ! j = b ! j" if "j < n" for j
  proof -
    have "take n a ! j = take n b ! j" using tn by simp
    with that show ?thesis by simp
  qed
  have top: "(n < length a \<and> \<not> RuneStart (a ! n)) = (n < length b \<and> \<not> RuneStart (b ! n))"
  proof -
    have a: "RuneStart (a ! n) = ValidString (take n a)" if "n < length a"
      using RuneStart_iff_boundary [OF va that] .
    have b: "RuneStart (b ! n) = ValidString (take n a)" if "n < length b"
      using RuneStart_iff_boundary [OF vb that] tn by simp
    have ea: "ValidString (take n a)" if "\<not> n < length a" using that va by simp
    have eb: "ValidString (take n a)" if "\<not> n < length b" using that vb tn by simp
    show ?thesis using a b ea eb by blast
  qed
  have "backUp a n = backUp b n"
  proof (rule backUp_cong)
    fix j assume j: "0 < j" "j \<le> n"
    show "(j < length a \<and> \<not> RuneStart (a ! j)) = (j < length b \<and> \<not> RuneStart (b ! j))"
    proof (cases "j = n")
      case True
      with top show ?thesis by simp
    next
      case False
      with j have "j < n" by simp
      with nth [of j] n show ?thesis by simp
    qed
  qed
  moreover define k where "k = backUp a n"
  ultimately have kb: "backUp b n = k" by simp
  have "k \<le> n" by (simp add: k_def backUp_le)
  then have "take k a = take k b"
    using tn by (metis min.absorb1 take_take)
  then show ?thesis
    by (simp add: commonPrefix_def nb kb flip: n_def k_def)
qed

text \<open>
  C8. For all valid UTF-8 strings \<open>a\<close> and \<open>b\<close>, \<open>commonPrefix a b\<close> is a prefix of \<open>a\<close> and of
  \<open>b\<close>, it ends on a rune boundary (it is valid UTF-8 itself, and the byte that follows it
  in \<open>a\<close> or in \<open>b\<close>, if there is one, starts a rune), and \<open>commonPrefix a b = commonPrefix b a\<close>.
\<close>

theorem commonPrefix_rune_boundary_sym:
  assumes "ValidString a" and "ValidString b"
  shows "HasPrefix a (commonPrefix a b) \<and> HasPrefix b (commonPrefix a b) \<and>
         ValidString (commonPrefix a b) \<and>
         (length (commonPrefix a b) < length a \<longrightarrow> RuneStart (a ! length (commonPrefix a b))) \<and>
         (length (commonPrefix a b) < length b \<longrightarrow> RuneStart (b ! length (commonPrefix a b))) \<and>
         commonPrefix a b = commonPrefix b a"
proof -
  from commonPrefix_take [of a b] obtain k where
    k: "k \<le> length a" "k \<le> length b" and cp: "commonPrefix a b = take k a"
    and eq: "take k a = take k b" by blast
  have v: "ValidString (commonPrefix a b)" using assms(1) by (rule commonPrefix_valid)
  have len: "length (commonPrefix a b) = k" using k cp by simp
  have ra: "RuneStart (a ! k)" if "k < length a"
    using RuneStart_iff_boundary [OF assms(1) that] v cp by simp
  have rb: "RuneStart (b ! k)" if "k < length b"
    using RuneStart_iff_boundary [OF assms(2) that] v cp eq by simp
  have "HasPrefix a (commonPrefix a b) \<and> HasPrefix b (commonPrefix a b) \<and>
        ValidString (commonPrefix a b) \<and>
        (length (commonPrefix a b) < length a \<longrightarrow> RuneStart (a ! length (commonPrefix a b))) \<and>
        (length (commonPrefix a b) < length b \<longrightarrow> RuneStart (b ! length (commonPrefix a b)))"
    using commonPrefix_HasPrefix [of a b] v ra rb by (simp add: len)
  with commonPrefix_sym [OF assms] show ?thesis by blast
qed

theorem commonPrefix_rune_boundary_sym_witness:
  "ValidString (''/folder/'' @ [CHR 0xF0, CHR 0x9F, CHR 0x98, CHR 0x80] @ ''file'') \<and>
   ValidString (''/folder/'' @ [CHR 0xF0, CHR 0x9F, CHR 0x98, CHR 0x81] @ ''file'') \<and>
   commonPrefix (''/folder/'' @ [CHR 0xF0, CHR 0x9F, CHR 0x98, CHR 0x80] @ ''file'')
                (''/folder/'' @ [CHR 0xF0, CHR 0x9F, CHR 0x98, CHR 0x81] @ ''file'') = ''/folder/'' \<and>
   commonPrefix (''/folder/'' @ [CHR 0xF0, CHR 0x9F, CHR 0x98, CHR 0x81] @ ''file'')
                (''/folder/'' @ [CHR 0xF0, CHR 0x9F, CHR 0x98, CHR 0x80] @ ''file'') = ''/folder/'' \<and>
   ValidString ''/folder/''"
proof -
  have va: "ValidString (''/folder/'' @ [CHR 0xF0, CHR 0x9F, CHR 0x98, CHR 0x80] @ ''file'')"
    by code_simp
  have vb: "ValidString (''/folder/'' @ [CHR 0xF0, CHR 0x9F, CHR 0x98, CHR 0x81] @ ''file'')"
    by code_simp
  have c: "commonPrefix (''/folder/'' @ [CHR 0xF0, CHR 0x9F, CHR 0x98, CHR 0x80] @ ''file'')
             (''/folder/'' @ [CHR 0xF0, CHR 0x9F, CHR 0x98, CHR 0x81] @ ''file'') = ''/folder/''"
    by code_simp
  from commonPrefix_rune_boundary_sym [OF va vb] c va vb show ?thesis
    by simp
qed

section \<open>Insertion at concrete inputs\<close>

text \<open>
  C1, evaluated on the code. \<open>AddFile\<close> of the file \<open>/a/b/c\<close> into the empty trie installs the
  entry as the root and returns the empty list: \<open>lsRecursive("/")\<close> cleans \<open>/\<close> to \<open>/\<close>, and
  \<open>list\<close> returns nothing for a root whose path continues after \<open>/\<close> with a byte other than
  the separator. The claim (and the expected values of \<open>TestAddFile\<close>) asks for the three
  entries \<open>/a\<close>, \<open>/a/b\<close>, \<open>/a/b/c\<close>.
\<close>

theorem AddFile_first_returns_nothing:
  "AddFile fuel now NewTrie (Some (NewEntry ''/a/b/c'' ''cid'' 5 MIMEOctetStream 7)) =
     (if fuel = 0 then None
      else Some (([], None),
                 \<lparr>Root = Some (NewEntry ''/a/b/c'' ''cid'' 5 MIMEOctetStream 7)\<rparr>))"
proof (cases fuel)
  case 0
  have "AddFile 0 now NewTrie (Some (NewEntry ''/a/b/c'' ''cid'' 5 MIMEOctetStream 7)) = None"
    by code_simp
  with 0 show ?thesis by simp
next
  case (Suc n)
  have l: "list_go (CleanPath ''/'') (NewEntry ''/a/b/c'' ''cid'' 5 MIMEOctetStream 7) = []"
    by code_simp
  have v: "Validate (NewEntry ''/a/b/c'' ''cid'' 5 MIMEOctetStream 7) =
             Inr (NewEntry ''/a/b/c'' ''cid'' 5 MIMEOctetStream 7)"
    by code_simp
  have c: "CleanPath (Path (NewEntry ''/a/b/c'' ''cid'' 5 MIMEOctetStream 7)) = ''/a/b/c''"
    by code_simp
  have e: "Entry (Content (NewEntry ''/a/b/c'' ''cid'' 5 MIMEOctetStream 7)) ''/a/b/c''
             (Entries (NewEntry ''/a/b/c'' ''cid'' 5 MIMEOctetStream 7))
             (Meta (NewEntry ''/a/b/c'' ''cid'' 5 MIMEOctetStream 7))
           = NewEntry ''/a/b/c'' ''cid'' 5 MIMEOctetStream 7"
    by code_simp
  show ?thesis
    using Suc l
    by (simp add: AddFile_def v c e NewTrie_def lsRecursive_def Let_def sortStableByPath_def)
qed

text \<open>
  C2, evaluated on the code. The files \<open>/ab\<close> and \<open>/ac\<close> and then the directory marker
  \<open>/abb\<close> are added to the empty trie, and no call returns an error. The marker is not
  retrievable: \<open>Stat\<close> and \<open>File\<close> of \<open>/abb\<close> return \<open>ErrFileNotExist\<close>, and \<open>File\<close> of \<open>/ab\<close> now
  returns a directory, not the file. In \<open>addTo\<close> the leaf \<open>b\<close> is split by
  \<open>split(subtrie.Path, subtrie, what, false)\<close> with \<open>what.Path\<close> already trimmed to \<open>b\<close>, so
  the test \<open>what.Path == subprefix\<close> of \<open>split\<close> compares the rest of the new path with the
  edge of the old node, takes them for the same place, and files the marker at \<open>/ab\<close>.
\<close>

theorem AddFile_marker_not_retrievable:
  "(case AddFile 1 9 NewTrie (Some (NewEntry ''/ab'' ''cid'' 5 MIMEOctetStream 7)) of
      Some ((_, None), mt1) \<Rightarrow>
       (case AddFile 1 9 mt1 (Some (NewEntry ''/ac'' ''cid'' 5 MIMEOctetStream 7)) of
          Some ((_, None), mt2) \<Rightarrow>
           (case AddFile 1 9 mt2 (Some (NewEntry ''/abb'' [] 0 MIMEDriveEntry 7)) of
              Some ((_, None), mt3) \<Rightarrow>
                Stat mt3 ''/abb'' = Inl ErrFileNotExist \<and>
                fst (File mt3 ''/abb'') = Inl ErrFileNotExist \<and>
                fst (File mt3 ''/ab'') =
                  Inr \<lparr>Name = ''ab'', CID = [], Type = MIMEDriveDirectory, Size = 0,
                       Version = 0, CreatedAt = 7\<rparr> \<and>
                fst (File mt2 ''/ab'') =
                  Inr \<lparr>Name = ''ab'', CID = ''cid'', Type = MIMEOctetStream, Size = 5,
                       Version = 1, CreatedAt = 7\<rparr>
            | _ \<Rightarrow> False)
        | _ \<Rightarrow> False)
    | _ \<Rightarrow> False)"
  by code_simp

section \<open>Failure leaves the trie as it was\<close>

lemma extend_atomic: "fst (extend s w) \<noteq> None \<Longrightarrow> snd (extend s w) = s"
  by (auto simp: extend_def split: option.splits if_splits)

lemma add_atomic: "fst (add s w) \<noteq> None \<Longrightarrow> snd (add s w) = s"
  by (auto simp: add_def Let_def split: option.splits if_splits list.splits sum.splits)

lemma addTo_atomic_aux:
  "(fst (snd (addTo now s w)) \<noteq> None \<longrightarrow> snd (snd (addTo now s w)) = s)"
  "(\<forall>en e es'. addToLoop now r es w = Some (en, Some e, es') \<longrightarrow> es' = es)"
proof (induction now s w and now r es w rule: addTo_addToLoop.induct)
  case (1 now c p es m what)
  show ?case
    using 1 extend_atomic [of "Entry c p es m" what]
          add_atomic [of "Entry c p es m" "trimPrefix what p"]
    by (auto simp: Let_def split: list.splits if_splits option.splits prod.splits)
next
  case (2 now whatRune what)
  then show ?case by simp
next
  case (3 now whatRune me rest what)
  then show ?case
    by (auto split: if_splits option.splits prod.splits)
qed

text \<open>
  C5. \<open>AddFile\<close> is atomic on failure: whenever it returns an error (a validation error, or
  \<open>ErrConflict\<close> from the insertion), the trie is exactly the trie before the call. Adding
  the same file path twice gives \<open>ErrConflict\<close> at the second call.
\<close>

theorem AddFile_atomic_on_error:
  "AddFile fuel now mt m = Some ((entries, Some err), mt') \<Longrightarrow> mt' = mt"
proof -
  assume a: "AddFile fuel now mt m = Some ((entries, Some err), mt')"
  show ?thesis
  proof (cases m)
    case None
    with a show ?thesis by (simp add: AddFile_def)
  next
    case (Some e)
    show ?thesis
    proof (cases "Validate e")
      case (Inl x)
      with a Some show ?thesis by (simp add: AddFile_def)
    next
      case (Inr e1)
      show ?thesis
      proof (cases "Root mt")
        case None
        with a Some Inr show ?thesis
          by (auto simp: AddFile_def Let_def)
      next
        case (Some root)
        define w where "w = copy (Entry (Content e1) (CleanPath (Path e1)) (Entries e1) (Meta e1))"
        obtain en er root' where r: "addTo now root w = (en, er, root')"
          by (cases "addTo now root w") auto
        with a \<open>m = Some e\<close> Inr Some have "er = Some err" and mt': "mt' = mt\<lparr>Root := Some root'\<rparr>"
          by (auto simp: AddFile_def Let_def w_def)
        with addTo_atomic_aux(1) [of now root w] r have "root' = root" by simp
        with mt' Some show ?thesis by simp
      qed
    qed
  qed
qed

theorem AddFile_atomic_on_error_witness:
  "AddFile 1 9 NewTrie (Some (NewEntry ''/aaa'' ''cid'' 5 MIMEOctetStream 7))
     = Some (([], None), \<lparr>Root = Some (NewEntry ''/aaa'' ''cid'' 5 MIMEOctetStream 7)\<rparr>) \<and>
   AddFile 1 9 \<lparr>Root = Some (NewEntry ''/aaa'' ''cid'' 5 MIMEOctetStream 7)\<rparr>
     (Some (NewEntry ''/aaa'' ''cid'' 5 MIMEOctetStream 7))
     = Some ((fixEntries [NewEntry ''/aaa'' ''cid'' 5 MIMEOctetStream 7] [], Some ErrConflict),
             \<lparr>Root = Some (NewEntry ''/aaa'' ''cid'' 5 MIMEOctetStream 7)\<rparr>) \<and>
   \<lparr>Root = Some (NewEntry ''/aaa'' ''cid'' 5 MIMEOctetStream 7)\<rparr>
     = \<lparr>Root = Some (NewEntry ''/aaa'' ''cid'' 5 MIMEOctetStream 7)\<rparr>"
proof -
  have 1: "AddFile 1 9 NewTrie (Some (NewEntry ''/aaa'' ''cid'' 5 MIMEOctetStream 7))
     = Some (([], None), \<lparr>Root = Some (NewEntry ''/aaa'' ''cid'' 5 MIMEOctetStream 7)\<rparr>)"
    by code_simp
  have 2: "AddFile 1 9 \<lparr>Root = Some (NewEntry ''/aaa'' ''cid'' 5 MIMEOctetStream 7)\<rparr>
       (Some (NewEntry ''/aaa'' ''cid'' 5 MIMEOctetStream 7))
     = Some ((fixEntries [NewEntry ''/aaa'' ''cid'' 5 MIMEOctetStream 7] [], Some ErrConflict),
             \<lparr>Root = Some (NewEntry ''/aaa'' ''cid'' 5 MIMEOctetStream 7)\<rparr>)"
    by code_simp
  from AddFile_atomic_on_error [OF 2] 1 2 show ?thesis by simp
qed

end
